theory Spec2Isabelle
  imports Complex_Main "HOL-Library.Word"
begin

section \<open>Values of the language\<close>

text \<open>
  A string of the language is a sequence of 16-bit code units; \<open>length\<close> counts code
  units, as \<open>str.length\<close> does. \<open>js\<close> embeds an ASCII literal.
\<close>

type_synonym jschar = "16 word"
type_synonym jsstring = "jschar list"

definition js :: "string \<Rightarrow> jsstring" where
  "js cs = map of_char cs"

definition char_lt :: jschar where
  "char_lt = of_char CHR ''<''"

definition char_gt :: jschar where
  "char_gt = of_char CHR ''>''"

datatype error = TypeError | RangeError

text \<open>
  A Number is NaN, an infinity, or finite. The conversion of a finite Number to text is
  part of the language, not of this program: a finite Number is given here by the
  decimal text which that conversion yields for it (\<open>0\<close> for both zeros).
\<close>

datatype jsnumber = NaN | PosInfinity | NegInfinity | Finite jsstring

datatype jsvalue =
    JUndefined
  | JNull
  | JBoolean bool
  | JNumber jsnumber
  | JBigInt int
  | JString jsstring
  | JSymbol
  | JObject

fun isNaN :: "jsnumber \<Rightarrow> bool" where
  "isNaN NaN = True"
| "isNaN _ = False"

fun NumberToString :: "jsnumber \<Rightarrow> jsstring" where
  "NumberToString NaN = js ''NaN''"
| "NumberToString PosInfinity = js ''Infinity''"
| "NumberToString NegInfinity = js ''-Infinity''"
| "NumberToString (Finite t) = t"

fun ToBoolean :: "jsvalue \<Rightarrow> bool" where
  "ToBoolean JUndefined = False"
| "ToBoolean JNull = False"
| "ToBoolean (JBoolean b) = b"
| "ToBoolean (JNumber n) = (\<not> isNaN n \<and> n \<noteq> Finite (js ''0''))"
| "ToBoolean (JBigInt i) = (i \<noteq> 0)"
| "ToBoolean (JString s) = (s \<noteq> [])"
| "ToBoolean JSymbol = True"
| "ToBoolean JObject = True"

subsection \<open>String and array primitives\<close>

text \<open>\<open>str.substring(start, stop)\<close> on non-negative integers: both bounds are clamped
  to the length and swapped when out of order.\<close>

definition substring :: "'a list \<Rightarrow> nat \<Rightarrow> nat \<Rightarrow> 'a list" where
  "substring str start stop =
     (let len = length str;
          finalStart = min start len;
          finalEnd = min stop len;
          lo = min finalStart finalEnd;
          hi = max finalStart finalEnd
      in take (hi - lo) (drop lo str))"

text \<open>\<open>x.slice(start, stop)\<close> of strings and arrays: a negative bound counts from the
  end, every bound is clamped to the length, and an empty range gives the empty result.
  \<open>slice_from\<close> is the one-argument form.\<close>

definition slice :: "'a list \<Rightarrow> int \<Rightarrow> int \<Rightarrow> 'a list" where
  "slice xs start stop =
     (let len = int (length xs);
          lo = (if start < 0 then max (len + start) 0 else min start len);
          hi = (if stop < 0 then max (len + stop) 0 else min stop len)
      in take (nat (hi - lo)) (drop (nat lo) xs))"

definition slice_from :: "'a list \<Rightarrow> int \<Rightarrow> 'a list" where
  "slice_from xs start = slice xs start (int (length xs))"

text \<open>\<open>str.lastIndexOf(c)\<close> and \<open>str.indexOf(c)\<close> for a single code unit: the position
  of the last (first) occurrence, or \<open>-1\<close>.\<close>

fun lastIndexOf :: "'a list \<Rightarrow> 'a \<Rightarrow> int" where
  "lastIndexOf [] c = -1"
| "lastIndexOf (x # xs) c =
     (let r = lastIndexOf xs c
      in if 0 \<le> r then r + 1 else if x = c then 0 else -1)"

fun indexOf :: "'a list \<Rightarrow> 'a \<Rightarrow> int" where
  "indexOf [] c = -1"
| "indexOf (x # xs) c =
     (if x = c then 0
      else let r = indexOf xs c in if 0 \<le> r then r + 1 else -1)"

text \<open>
  The arrays \<open>heights\<close>, \<open>leftPads\<close> and \<open>offsets\<close> are sparse arrays of numbers: a
  slot that was never written reads \<open>undefined\<close> (\<open>None\<close>). Writing past the end
  extends the array with empty slots. A negative index names no element of the array
  (the code computes its indexes from ranges that start at \<open>0\<close>).
\<close>

type_synonym numarray = "real option list"

definition array_get :: "numarray \<Rightarrow> int \<Rightarrow> real option" where
  "array_get xs i = (if 0 \<le> i \<and> i < int (length xs) then xs ! nat i else None)"

definition array_set :: "numarray \<Rightarrow> int \<Rightarrow> real \<Rightarrow> numarray" where
  "array_set xs i v =
     (if i < 0 then xs
      else if i < int (length xs) then xs[nat i := Some v]
      else xs @ replicate (nat i - length xs) None @ [Some v])"

text \<open>\<open>!x\<close> for \<open>x\<close> a number or \<open>undefined\<close>.\<close>

fun falsy :: "real option \<Rightarrow> bool" where
  "falsy None = True"
| "falsy (Some v) = (v = 0)"

text \<open>\<open>x || 0\<close> for \<open>x\<close> a number or \<open>undefined\<close>.\<close>

fun or_zero :: "real option \<Rightarrow> real" where
  "or_zero None = 0"
| "or_zero (Some v) = (if v = 0 then 0 else v)"

section \<open>Chunk splitter\<close>

text \<open>
  \<open>splitString\<close>: \<open>new Array(Math.ceil(str.length / chunkLength))\<close> filled and mapped
  to the substrings at offsets \<open>i * chunkLength\<close>. For \<open>chunkLength = 0\<close> the quotient
  is infinite or NaN and the array constructor throws a RangeError.
\<close>

definition splitString :: "jsstring \<Rightarrow> nat \<Rightarrow> error + jsstring list" where
  "splitString str len =
     (if len = 0 then Inl RangeError
      else Inr (map (\<lambda>i. let offset = i * len in substring str offset (offset + len))
                  [0 ..< nat \<lceil>real (length str) / real len\<rceil>]))"

text \<open>The body of the loop of \<open>splitHtml\<close> at index \<open>i\<close>.\<close>

definition repairChunk :: "jsstring list \<Rightarrow> nat \<Rightarrow> jsstring list" where
  "repairChunk cs i =
     (let openTag = lastIndexOf (cs ! i) char_lt;
          closeTag = lastIndexOf (cs ! i) char_gt;
          unclosedTagFound = (openTag > closeTag);
          lastChunk = (length cs \<le> i + 1 \<or> cs ! (i + 1) = [])
      in if \<not> unclosedTagFound \<or> lastChunk then cs
         else
           let nextChunkCloseTag = lastIndexOf (cs ! (i + 1)) char_gt + 1
           in if nextChunkCloseTag > int (length (cs ! i)) - openTag
              then cs[i + 1 := slice_from (cs ! i) openTag @ cs ! (i + 1),
                      i := slice (cs ! i) 0 openTag]
              else cs[i := cs ! i @ slice (cs ! (i + 1)) 0 nextChunkCloseTag,
                      i + 1 := slice_from (cs ! (i + 1)) nextChunkCloseTag])"

function splitHtml_loop :: "jsstring list \<Rightarrow> nat \<Rightarrow> jsstring list" where
  "splitHtml_loop cs i =
     (if i < length cs then splitHtml_loop (repairChunk cs i) (i + 1) else cs)"
  by pat_completeness auto
termination
  by (relation "measure (\<lambda>(cs, i). length cs - i)")
     (auto simp: repairChunk_def Let_def)

declare splitHtml_loop.simps [simp del]

definition splitHtml :: "jsstring \<Rightarrow> nat \<Rightarrow> error + jsstring list" where
  "splitHtml str len =
     (case splitString str len of
        Inl e \<Rightarrow> Inl e
      | Inr cs \<Rightarrow> Inr (splitHtml_loop cs 0))"

text \<open>
  The loop body as the specification words it, for comparison with \<open>repairChunk\<close>: the
  closing fragment of the crossing tag ends at the first \<open>>\<close> of the following chunk.
\<close>

definition repairChunk_spec :: "jsstring list \<Rightarrow> nat \<Rightarrow> jsstring list" where
  "repairChunk_spec cs i =
     (let openTag = lastIndexOf (cs ! i) char_lt;
          closeTag = lastIndexOf (cs ! i) char_gt;
          unclosedTagFound = (openTag > closeTag);
          lastChunk = (length cs \<le> i + 1 \<or> cs ! (i + 1) = [])
      in if \<not> unclosedTagFound \<or> lastChunk then cs
         else
           let nextChunkCloseTag = indexOf (cs ! (i + 1)) char_gt + 1
           in if nextChunkCloseTag > int (length (cs ! i)) - openTag
              then cs[i + 1 := slice_from (cs ! i) openTag @ cs ! (i + 1),
                      i := slice (cs ! i) 0 openTag]
              else cs[i := cs ! i @ slice (cs ! (i + 1)) 0 nextChunkCloseTag,
                      i + 1 := slice_from (cs ! (i + 1)) nextChunkCloseTag])"

section \<open>The instance\<close>

datatype mode = Replace | Append

datatype contentType = Html | Text

text \<open>What \<open>calculateChunkData\<close> hands to \<open>storeChunkData\<close>; a field that is not a
  number is \<open>None\<close>.\<close>

record chunkData =
  leftPad :: "real option"
  offsetHeight :: "real option"
  offsetTop :: "real option"

text \<open>
  The render tree is outside the model. What the code reads back from it is an input,
  carried with the instance: the scroll position of the scrollable element, whether the
  render surface is the scrollable element, the tops of the two bounding rectangles,
  whether the render surface is attached to a parent, and the geometry that the layout
  reports for the element of chunk \<open>k\<close> once it is appended.
\<close>

record chunkEl =
  markerOffsetLeft :: real
  elOffsetHeight :: real
  elOffsetTop :: real

record dom =
  scrollTop :: real
  elIsScrollableEl :: bool
  elRectTop :: real
  scrollableRectTop :: real
  hasParentNode :: bool
  layout :: "int \<Rightarrow> chunkEl"

record VirtualContent =
  chunkLength :: nat
  mode :: mode
  threshold :: int
  contentType :: contentType
  chunks :: "jsstring list"
  heights :: numarray
  leftPads :: numarray
  offsets :: numarray
  pointer :: int
  visibleIndexes :: "int list"
  env :: dom

text \<open>The options the constructor reads; an option that is not given is \<open>None\<close>.\<close>

record options =
  opt_chunkSize :: "nat option"
  opt_append :: bool
  opt_threshold :: "int option"
  opt_type :: "contentType option"

definition DEFAULT_CHUNK_SIZE :: nat where
  "DEFAULT_CHUNK_SIZE = 10240"

definition DEFAULT_THRESHOLD :: int where
  "DEFAULT_THRESHOLD = 2"

text \<open>The constructor: \<open>options.x || DEFAULT\<close> takes the default for an absent option
  and for \<open>0\<close>.\<close>

definition create :: "options \<Rightarrow> dom \<Rightarrow> VirtualContent" where
  "create opts d =
     \<lparr> chunkLength = (case opt_chunkSize opts of
                        None \<Rightarrow> DEFAULT_CHUNK_SIZE
                      | Some k \<Rightarrow> if k = 0 then DEFAULT_CHUNK_SIZE else k),
       mode = (if opt_append opts then Append else Replace),
       threshold = (case opt_threshold opts of
                      None \<Rightarrow> DEFAULT_THRESHOLD
                    | Some t \<Rightarrow> if t = 0 then DEFAULT_THRESHOLD else t),
       contentType = (case opt_type opts of None \<Rightarrow> Html | Some ty \<Rightarrow> ty),
       chunks = [],
       heights = [],
       leftPads = [],
       offsets = [],
       pointer = 0,
       visibleIndexes = [],
       env = d \<rparr>"

subsection \<open>Geometry cache\<close>

definition getChunkOffsetTop :: "VirtualContent \<Rightarrow> int \<Rightarrow> real" where
  "getChunkOffsetTop s chunkIndex = or_zero (array_get (offsets s) chunkIndex)"

definition calculateChunkData :: "chunkEl \<Rightarrow> chunkData" where
  "calculateChunkData el =
     \<lparr> leftPad = Some (markerOffsetLeft el),
       offsetHeight = Some (elOffsetHeight el),
       offsetTop = Some (elOffsetTop el) \<rparr>"

definition storeChunkData :: "VirtualContent \<Rightarrow> int \<Rightarrow> chunkData \<Rightarrow> VirtualContent" where
  "storeChunkData s chunkIndex extras =
     (let s1 = (case offsetTop extras of
                  Some v \<Rightarrow>
                    if falsy (array_get (offsets s) chunkIndex)
                    then s\<lparr>offsets := array_set (offsets s) chunkIndex v\<rparr> else s
                | None \<Rightarrow> s);
          s2 = (case offsetHeight extras of
                  Some v \<Rightarrow>
                    if falsy (array_get (heights s1) chunkIndex)
                    then s1\<lparr>heights := array_set (heights s1) chunkIndex v\<rparr> else s1
                | None \<Rightarrow> s1)
      in (case leftPad extras of
            Some v \<Rightarrow>
              if falsy (array_get (leftPads s2) chunkIndex)
              then s2\<lparr>leftPads := array_set (leftPads s2) chunkIndex v\<rparr> else s2
          | None \<Rightarrow> s2))"

subsection \<open>Window policy\<close>

definition getChunkRangeForReplacement :: "VirtualContent \<Rightarrow> int \<Rightarrow> int \<times> int" where
  "getChunkRangeForReplacement s p =
     (let lo = 0;
          hi = int (length (chunks s));
          t = threshold s;
          startOffset = p - t;
          endOffset = p + t
      in if startOffset < lo \<and> endOffset > hi then (lo, hi)
         else
           let endOffset1 = (if startOffset < lo then endOffset + \<bar>lo - startOffset\<bar>
                             else endOffset);
               startOffset1 = (if startOffset < lo then lo else startOffset);
               startOffset2 = (if endOffset1 > hi then startOffset1 - endOffset1 + hi
                               else startOffset1);
               endOffset2 = (if endOffset1 > hi then hi else endOffset1)
           in (max startOffset2 lo, min endOffset2 hi))"

subsection \<open>Pointer resolver\<close>

definition getScrollTop :: "VirtualContent \<Rightarrow> real" where
  "getScrollTop s = scrollTop (env s)"

definition getOffsetToScrollableEl :: "VirtualContent \<Rightarrow> real" where
  "getOffsetToScrollableEl s =
     (if elIsScrollableEl (env s) then 0
      else elRectTop (env s) + scrollTop (env s) - scrollableRectTop (env s))"

definition getScrollTopForChunks :: "VirtualContent \<Rightarrow> real" where
  "getScrollTopForChunks s = getScrollTop s - getOffsetToScrollableEl s"

function getCurrentPointer_loop :: "VirtualContent \<Rightarrow> nat \<Rightarrow> nat \<Rightarrow> int" where
  "getCurrentPointer_loop s limit i =
     (if i < limit
      then (if getChunkOffsetTop s (int i) > getScrollTopForChunks s then int i - 1
            else getCurrentPointer_loop s limit (i + 1))
      else int (length (offsets s)) - 1)"
  by pat_completeness auto
termination
  by (relation "measure (\<lambda>(s, limit, i). limit - i)") auto

declare getCurrentPointer_loop.simps [simp del]

definition getCurrentPointer :: "VirtualContent \<Rightarrow> int" where
  "getCurrentPointer s = getCurrentPointer_loop s (length (offsets s)) 0"

subsection \<open>Needs-update check\<close>

function needUpdate_loop :: "int list \<Rightarrow> int \<Rightarrow> int \<Rightarrow> bool" where
  "needUpdate_loop vis limit nextPointer =
     (if nextPointer < limit
      then (if indexOf vis nextPointer = -1 then True
            else needUpdate_loop vis limit (nextPointer + 1))
      else False)"
  by pat_completeness auto
termination
  by (relation "measure (\<lambda>(vis, limit, n). nat (limit - n))") auto

declare needUpdate_loop.simps [simp del]

definition needUpdate :: "VirtualContent \<Rightarrow> int \<Rightarrow> int \<Rightarrow> bool" where
  "needUpdate s prevPointer nextPointer =
     (if mode s = Replace
      then (if prevPointer = nextPointer then False
            else
              let prev = getChunkRangeForReplacement s prevPointer;
                  next = getChunkRangeForReplacement s nextPointer
              in fst prev \<noteq> fst next \<or> snd prev \<noteq> snd next)
      else needUpdate_loop (visibleIndexes s)
             (min (nextPointer + threshold s) (int (length (chunks s)))) nextPointer)"

subsection \<open>Materializer\<close>

definition getLastVisible :: "VirtualContent \<Rightarrow> int" where
  "getLastVisible s =
     (let n = length (visibleIndexes s)
      in if n \<noteq> 0 then visibleIndexes s ! (n - 1) else -1)"

text \<open>\<open>updateContentWithAppend\<close>: for \<open>i\<close> from \<open>first\<close> below \<open>last\<close>, the offset of
  the new element is written (unconditionally) and \<open>i\<close> becomes visible.\<close>

definition updateContentWithAppend :: "VirtualContent \<Rightarrow> int \<Rightarrow> int \<Rightarrow> VirtualContent" where
  "updateContentWithAppend s prevPointer p =
     (let first = getLastVisible s + 1;
          last = min (p + threshold s) (int (length (chunks s)))
      in fold (\<lambda>i st. st\<lparr>offsets := array_set (offsets st) i (elOffsetTop (layout (env st) i)),
                           visibleIndexes := visibleIndexes st @ [i]\<rparr>)
              [first .. last - 1] s)"

text \<open>\<open>updateContentWithReplace\<close>: the visible set is emptied, then every chunk of
  \<open>chunks.slice(startOffset, endOffset)\<close> is appended, measured, stored and made
  visible, with index \<open>startOffset + i\<close>.\<close>

definition updateContentWithReplace :: "VirtualContent \<Rightarrow> int \<Rightarrow> int \<Rightarrow> VirtualContent" where
  "updateContentWithReplace s prevPointer p =
     (let (startOffset, endOffset) = getChunkRangeForReplacement s p
      in fold (\<lambda>i st.
                 let chunkIndex = startOffset + int i;
                     st1 = storeChunkData st chunkIndex
                             (calculateChunkData (layout (env st) chunkIndex))
                 in st1\<lparr>visibleIndexes := visibleIndexes st1 @ [chunkIndex]\<rparr>)
              [0 ..< length (slice (chunks s) startOffset endOffset)]
              (s\<lparr>visibleIndexes := []\<rparr>))"

text \<open>Every caller invokes \<open>updateContent()\<close> without arguments, so both pointer
  parameters take their default \<open>0\<close>.\<close>

definition updateContent :: "VirtualContent \<Rightarrow> VirtualContent" where
  "updateContent s =
     (if mode s = Append then updateContentWithAppend s 0 0
      else updateContentWithReplace s 0 0)"

section \<open>Setting content\<close>

fun validateString :: "jsvalue \<Rightarrow> error + jsstring" where
  "validateString (JString str) = Inr str"
| "validateString (JNumber n) =
     (if \<not> isNaN n then Inr (NumberToString n)
      else if \<not> ToBoolean (JNumber n) then Inr []
      else Inl TypeError)"
| "validateString v = (if \<not> ToBoolean v then Inr [] else Inl TypeError)"

definition scrollToTop :: "VirtualContent \<Rightarrow> VirtualContent" where
  "scrollToTop s = s\<lparr>env := (env s)\<lparr>scrollTop := 0\<rparr>\<rparr>"

text \<open>
  An operation returns its outcome (\<open>Inl\<close> the error thrown) together with the instance
  as it is when the operation ends, so that what a failed call leaves behind is visible.
  The parameter of \<open>setText\<close> has the default \<open>''\<close>, which replaces \<open>undefined\<close>.
\<close>

definition setText :: "VirtualContent \<Rightarrow> jsvalue \<Rightarrow> (error + unit) \<times> VirtualContent" where
  "setText s arg =
     (case validateString (if arg = JUndefined then JString [] else arg) of
        Inl e \<Rightarrow> (Inl e, s)
      | Inr str \<Rightarrow>
          (case splitString str (chunkLength s) of
             Inl e \<Rightarrow> (Inl e, s\<lparr>contentType := Text\<rparr>)
           | Inr cs \<Rightarrow>
               let s1 = scrollToTop
                          (s\<lparr>contentType := Text, chunks := cs, pointer := 0, heights := [],
                             leftPads := [], offsets := [], visibleIndexes := []\<rparr>)
               in (Inr (), if hasParentNode (env s1) then updateContent s1 else s1)))"

definition setHtml :: "VirtualContent \<Rightarrow> jsvalue \<Rightarrow> (error + unit) \<times> VirtualContent" where
  "setHtml s arg =
     (case validateString arg of
        Inl e \<Rightarrow> (Inl e, s)
      | Inr html \<Rightarrow>
          (case splitHtml html (chunkLength s) of
             Inl e \<Rightarrow> (Inl e, s\<lparr>contentType := Html\<rparr>)
           | Inr cs \<Rightarrow>
               let s1 = scrollToTop
                          (s\<lparr>contentType := Html, chunks := cs, pointer := 0, heights := [],
                             leftPads := [], offsets := [], visibleIndexes := []\<rparr>)
               in (Inr (), if hasParentNode (env s1) then updateContent s1 else s1)))"

section \<open>Example instances\<close>

text \<open>
  A layout in which every chunk element is 20 high and the elements are stacked; a
  render surface that is not attached and scrolls itself; an instance created with chunk
  size 1 and the defaults otherwise, and the same attached to a parent; the instance
  after \<open>setText('0123456789')\<close>; that instance with four offsets cached in
  increasing order, scrolled to 150; and with five offsets cached, the fifth measured
  after the content became lower, scrolled to 260. The two measurements are of one
  chunk, before and after a reflow. Last, the attached instance after
  \<open>setText('0123456789')\<close>, and that instance rebuilt by \<open>updateContent\<close> once the
  layout reports every chunk element 30 high, with its marker 4 to the right and the
  first element 8 below the top.
\<close>

definition stacked_layout :: "int \<Rightarrow> chunkEl" where
  "stacked_layout k =
     \<lparr> markerOffsetLeft = 0, elOffsetHeight = 20, elOffsetTop = 20 * real_of_int k \<rparr>"

definition detached_dom :: dom where
  "detached_dom =
     \<lparr> scrollTop = 0, elIsScrollableEl = True, elRectTop = 0, scrollableRectTop = 0,
       hasParentNode = False, layout = stacked_layout \<rparr>"

definition fresh :: VirtualContent where
  "fresh = create \<lparr> opt_chunkSize = Some 1, opt_append = False, opt_threshold = None,
                    opt_type = None \<rparr> detached_dom"

definition ten_chunks :: VirtualContent where
  "ten_chunks = snd (setText fresh (JString (js ''0123456789'')))"

definition reflowed :: VirtualContent where
  "reflowed = ten_chunks\<lparr>offsets := [Some 0, Some 100, Some 200, Some 300, Some 250],
                         env := (env ten_chunks)\<lparr>scrollTop := 260\<rparr>\<rparr>"

definition measured_at_top :: chunkData where
  "measured_at_top = \<lparr> leftPad = Some 0, offsetHeight = Some 20, offsetTop = Some 0 \<rparr>"

definition measured_after_reflow :: chunkData where
  "measured_after_reflow = \<lparr> leftPad = Some 4, offsetHeight = Some 30, offsetTop = Some 8 \<rparr>"

definition attached :: VirtualContent where
  "attached = fresh\<lparr>env := (env fresh)\<lparr>hasParentNode := True\<rparr>\<rparr>"

definition settled :: VirtualContent where
  "settled = ten_chunks\<lparr>offsets := [Some 0, Some 100, Some 200, Some 300],
                        env := (env ten_chunks)\<lparr>scrollTop := 150\<rparr>\<rparr>"

definition indented_layout :: "int \<Rightarrow> chunkEl" where
  "indented_layout k =
     \<lparr> markerOffsetLeft = 4, elOffsetHeight = 30, elOffsetTop = 8 + 30 * real_of_int k \<rparr>"

definition rendered :: VirtualContent where
  "rendered = snd (setText attached (JString (js ''0123456789'')))"

definition rendered_again :: VirtualContent where
  "rendered_again = updateContent (rendered\<lparr>env := (env rendered)\<lparr>layout := indented_layout\<rparr>\<rparr>)"

lemma fresh_fields:
  "chunkLength fresh = 1" "mode fresh = Replace" "threshold fresh = 2" "chunks fresh = []"
  "offsets fresh = []" "heights fresh = []" "leftPads fresh = []" "env fresh = detached_dom"
  by (simp_all add: fresh_def create_def DEFAULT_THRESHOLD_def)

lemma ten_chunks_fields:
  "chunks ten_chunks = [js ''0'', js ''1'', js ''2'', js ''3'', js ''4'', js ''5'', js ''6'',
                        js ''7'', js ''8'', js ''9'']"
  "mode ten_chunks = Replace" "threshold ten_chunks = 2" "offsets ten_chunks = []"
  "chunkLength ten_chunks = 1"
  "env ten_chunks = detached_dom"
  by (simp_all add: ten_chunks_def setText_def splitString_def substring_def upt_rec js_def
      fresh_fields scrollToTop_def detached_dom_def)

section \<open>Properties of the chunk splitter\<close>

subsection \<open>Plain splitting\<close>

lemma substring_take_drop:
  "a \<le> b \<Longrightarrow> substring s a b = take (b - a) (drop a s)"
  by (auto simp: substring_def Let_def min_def max_def)

lemma concat_chunks_take:
  "concat (map (\<lambda>i. take n (drop (i * n) s)) [0 ..< k]) = take (k * n) s"
proof (induction k)
  case 0
  show ?case by simp
next
  case (Suc k)
  have "take (k * n) s @ take n (drop (k * n) s) = take (k * n + n) s"
    by (simp add: take_add)
  with Suc show ?case by (simp add: add.commute)
qed

lemma chunk_count_covers:
  assumes "0 < n"
  shows "len \<le> nat \<lceil>real len / real n\<rceil> * n"
proof -
  define q where "q = real len / real n"
  define c where "c = nat \<lceil>q\<rceil>"
  have "(0::real) \<le> q"
    by (simp add: q_def)
  then have "\<lceil>0::real\<rceil> \<le> \<lceil>q\<rceil>"
    by (rule ceiling_mono)
  then have "real c = real_of_int \<lceil>q\<rceil>"
    by (simp add: c_def)
  then have "q \<le> real c"
    by (simp add: le_of_int_ceiling)
  moreover have "real len = q * real n"
    using assms by (simp add: q_def)
  ultimately have "real len \<le> real c * real n"
    by (simp add: mult_right_mono)
  then have "real len \<le> real (c * n)"
    by simp
  then have "len \<le> c * n"
    by (simp only: of_nat_le_iff)
  then show ?thesis
    by (simp add: c_def q_def)
qed

lemma splitString_concat:
  assumes "0 < n"
  shows "\<exists>cs. splitString s n = Inr cs \<and> concat cs = s"
proof -
  let ?k = "nat \<lceil>real (length s) / real n\<rceil>"
  have "concat (map (\<lambda>i. let offset = i * n in substring s offset (offset + n)) [0 ..< ?k])
        = concat (map (\<lambda>i. take n (drop (i * n) s)) [0 ..< ?k])"
    by (simp add: substring_take_drop Let_def)
  also have "\<dots> = take (?k * n) s"
    by (rule concat_chunks_take)
  also have "\<dots> = s"
    using chunk_count_covers [OF assms, of "length s"] by simp
  finally show ?thesis
    using assms by (simp add: splitString_def)
qed

text \<open>
  C1. For every string \<open>s\<close> and every positive chunk length, \<open>splitString\<close> returns
  chunks (it does not throw), and concatenating them in order gives back \<open>s\<close> exactly.
\<close>

theorem splitString_roundtrip:
  assumes "0 < n"
  shows "\<exists>cs. splitString s n = Inr cs \<and> concat cs = s"
  using assms by (rule splitString_concat)

theorem splitString_roundtrip_witness:
  "(0::nat) < 5
   \<and> splitString (js ''0123456789ab'') 5 = Inr [js ''01234'', js ''56789'', js ''ab'']
   \<and> concat [js ''01234'', js ''56789'', js ''ab''] = js ''0123456789ab''"
  using splitString_roundtrip [of 5 "js ''0123456789ab''"]
  by (simp add: splitString_def substring_def js_def upt_rec)

subsection \<open>Markup-aware splitting\<close>

lemma lastIndexOf_bounds: "- 1 \<le> lastIndexOf xs c \<and> lastIndexOf xs c < int (length xs)"
  by (induction xs) (auto simp: Let_def)

lemma slice_prefix: "0 \<le> k \<Longrightarrow> slice xs 0 k = take (nat k) xs"
  by (auto simp: slice_def Let_def min_def)

lemma slice_from_suffix: "0 \<le> k \<Longrightarrow> slice_from xs k = drop (nat k) xs"
  by (auto simp: slice_from_def slice_def Let_def min_def)

lemma concat_update_pair:
  "Suc i < length cs \<Longrightarrow> a @ b = cs ! i @ cs ! Suc i
   \<Longrightarrow> concat (cs[i := a, Suc i := b]) = concat cs"
proof (induction cs arbitrary: i)
  case Nil
  then show ?case by simp
next
  case (Cons c cs)
  show ?case
  proof (cases i)
    case 0
    with Cons.prems show ?thesis by (cases cs) auto
  next
    case (Suc j)
    with Cons show ?thesis by simp
  qed
qed

lemma repairChunk_length: "length (repairChunk cs i) = length cs"
  by (simp add: repairChunk_def Let_def)

lemma repairChunk_elsewhere:
  "j \<noteq> i \<Longrightarrow> j \<noteq> i + 1 \<Longrightarrow> repairChunk cs i ! j = cs ! j"
  by (simp add: repairChunk_def Let_def)

lemma repairChunk_pair:
  assumes "i + 1 < length cs"
  shows "repairChunk cs i ! i @ repairChunk cs i ! (i + 1) = cs ! i @ cs ! (i + 1)"
proof -
  let ?o = "lastIndexOf (cs ! i) char_lt"
  let ?n = "lastIndexOf (cs ! (i + 1)) char_gt + 1"
  have n: "0 \<le> ?n"
    using lastIndexOf_bounds [of "cs ! (i + 1)" char_gt] by simp
  have o: "lastIndexOf (cs ! i) char_gt < ?o \<Longrightarrow> 0 \<le> ?o"
    using lastIndexOf_bounds [of "cs ! i" char_gt] by simp
  show ?thesis
    using assms n o
    by (auto simp: repairChunk_def Let_def slice_prefix slice_from_suffix)
qed

lemma repairChunk_concat: "concat (repairChunk cs i) = concat cs"
proof (cases "i + 1 < length cs")
  case True
  have "repairChunk cs i
        = (repairChunk cs i)[i := repairChunk cs i ! i, Suc i := repairChunk cs i ! Suc i]"
    by simp
  moreover have "concat (cs[i := repairChunk cs i ! i, Suc i := repairChunk cs i ! Suc i])
                 = concat cs"
    using True repairChunk_pair [of i cs] by (intro concat_update_pair) simp_all
  moreover have "(repairChunk cs i)[i := repairChunk cs i ! i, Suc i := repairChunk cs i ! Suc i]
                 = cs[i := repairChunk cs i ! i, Suc i := repairChunk cs i ! Suc i]"
    using True
    by (intro nth_equalityI) (auto simp: repairChunk_length nth_list_update repairChunk_elsewhere)
  ultimately show ?thesis by simp
next
  case False
  then show ?thesis by (simp add: repairChunk_def Let_def)
qed

lemma splitHtml_loop_concat: "concat (splitHtml_loop cs i) = concat cs"
proof (induction cs i rule: splitHtml_loop.induct)
  case (1 cs i)
  show ?case
  proof (cases "i < length cs")
    case True
    then have "concat (splitHtml_loop cs i) = concat (splitHtml_loop (repairChunk cs i) (i + 1))"
      by (subst splitHtml_loop.simps) simp
    also have "\<dots> = concat (repairChunk cs i)"
      using True by (rule "1.IH")
    finally show ?thesis by (simp add: repairChunk_concat)
  next
    case False
    then show ?thesis by (subst splitHtml_loop.simps) simp
  qed
qed

text \<open>
  C2. For every string \<open>s\<close> and every positive chunk length, \<open>splitHtml\<close> returns
  chunks whose concatenation in order is \<open>s\<close> exactly. Every run of the repair keeps
  the number of chunks, leaves every chunk other than \<open>i\<close> and \<open>i + 1\<close> as it is, and
  keeps the concatenation of chunks \<open>i\<close> and \<open>i + 1\<close>: it only moves a substring across
  the boundary between the two, and no character is dropped or duplicated.
\<close>

theorem splitHtml_roundtrip:
  assumes "0 < n"
  shows "(\<exists>cs. splitHtml s n = Inr cs \<and> concat cs = s)
         \<and> (\<forall>ds i. length (repairChunk ds i) = length ds
               \<and> (\<forall>j. j \<noteq> i \<and> j \<noteq> i + 1 \<longrightarrow> repairChunk ds i ! j = ds ! j)
               \<and> (i + 1 < length ds \<longrightarrow>
                    repairChunk ds i ! i @ repairChunk ds i ! (i + 1) = ds ! i @ ds ! (i + 1)))"
proof -
  obtain cs where cs: "splitString s n = Inr cs" "concat cs = s"
    using splitString_concat [OF assms] by blast
  then have "splitHtml s n = Inr (splitHtml_loop cs 0)"
    by (simp add: splitHtml_def)
  moreover have "concat (splitHtml_loop cs 0) = s"
    using cs by (simp add: splitHtml_loop_concat)
  ultimately have "\<exists>cs. splitHtml s n = Inr cs \<and> concat cs = s"
    by blast
  moreover have "repairChunk ds i ! i @ repairChunk ds i ! (i + 1) = ds ! i @ ds ! (i + 1)"
    if "i + 1 < length ds" for ds :: "jsstring list" and i
    using that by (rule repairChunk_pair)
  ultimately show ?thesis
    by (simp add: repairChunk_length repairChunk_elsewhere)
qed

theorem splitHtml_roundtrip_witness:
  "(0::nat) < 4
   \<and> splitHtml (js ''ab<cd>efgh'') 4 = Inr [js ''ab<cd>'', js ''ef'', js ''gh'']
   \<and> concat [js ''ab<cd>'', js ''ef'', js ''gh''] = js ''ab<cd>efgh''
   \<and> (2::nat) \<noteq> 0 \<and> (2::nat) \<noteq> 0 + 1
   \<and> repairChunk [js ''ab<c'', js ''d>ef'', js ''gh''] 0 ! 2 = js ''gh''
   \<and> (0::nat) + 1 < length [js ''ab<c'', js ''d>ef'', js ''gh'']
   \<and> repairChunk [js ''ab<c'', js ''d>ef'', js ''gh''] 0 ! 0
       @ repairChunk [js ''ab<c'', js ''d>ef'', js ''gh''] 0 ! (0 + 1)
       = js ''ab<c'' @ js ''d>ef''"
  using splitHtml_roundtrip [of 4 "js ''ab<cd>efgh''"]
  by (simp add: splitHtml_def splitString_def substring_def upt_rec splitHtml_loop.simps
      repairChunk_def js_def char_lt_def char_gt_def slice_def slice_from_def)

text \<open>
  C3. The repair is claimed to measure the closing fragment up to the first \<open>>\<close> of the
  next chunk and to move the tag to the chunk holding its larger part. The code measures
  up to the last \<open>>\<close> of the next chunk. For \<open>abc<div>x<b>yz\<close> split at 6 the tag
  \<open><div>\<close> has three code units in the first chunk and two in the second; the code
  compares 3 with 6 and pushes \<open><di\<close> forward, where the repair as specified compares 3
  with 2 and pulls \<open>v>\<close> back.
\<close>

theorem repairChunk_measures_to_last_close:
  "splitHtml (js ''abc<div>x<b>yz'') 6 = Inr [js ''abc'', js ''<div>x<b>'', js ''yz'']
   \<and> repairChunk [js ''abc<di'', js ''v>x<b>'', js ''yz''] 0
       = [js ''abc'', js ''<div>x<b>'', js ''yz'']
   \<and> repairChunk_spec [js ''abc<di'', js ''v>x<b>'', js ''yz''] 0
       = [js ''abc<div>'', js ''x<b>'', js ''yz'']"
  by (simp add: splitHtml_def splitString_def substring_def upt_rec splitHtml_loop.simps
      repairChunk_def repairChunk_spec_def js_def char_lt_def char_gt_def slice_def
      slice_from_def)

theorem repairChunk_measures_to_last_close_witness:
  "lastIndexOf (js ''abc<di'') char_gt < lastIndexOf (js ''abc<di'') char_lt
   \<and> int (length (js ''abc<di'')) - lastIndexOf (js ''abc<di'') char_lt = 3
   \<and> lastIndexOf (js ''v>x<b>'') char_gt + 1 = 6
   \<and> indexOf (js ''v>x<b>'') char_gt + 1 = 2
   \<and> repairChunk [js ''abc<di'', js ''v>x<b>'', js ''yz''] 0
       \<noteq> repairChunk_spec [js ''abc<di'', js ''v>x<b>'', js ''yz''] 0"
  using repairChunk_measures_to_last_close
  by (simp add: js_def char_lt_def char_gt_def)

section \<open>Properties of the window policy\<close>

text \<open>
  C4. In replace mode, for every pointer and every threshold (the positive ones among
  them), the range \<open>[start, end)\<close> over \<open>n\<close> chunks has \<open>start \<ge> 0\<close>, \<open>end \<le> n\<close>, and
  \<open>end - start = min(2t, n)\<close> whenever \<open>n \<ge> 2t\<close>. With \<open>n = 10\<close> and \<open>t = 2\<close>, pointer 0
  gives \<open>[0, 4)\<close> and pointer 9 gives \<open>[6, 10)\<close>.
\<close>

theorem getChunkRangeForReplacement_window:
  "0 \<le> fst (getChunkRangeForReplacement s p)
   \<and> snd (getChunkRangeForReplacement s p) \<le> int (length (chunks s))
   \<and> (2 * threshold s \<le> int (length (chunks s)) \<longrightarrow>
        snd (getChunkRangeForReplacement s p) - fst (getChunkRangeForReplacement s p)
        = min (2 * threshold s) (int (length (chunks s))))
   \<and> (length (chunks s) = 10 \<and> threshold s = 2 \<longrightarrow>
        getChunkRangeForReplacement s 0 = (0, 4) \<and> getChunkRangeForReplacement s 9 = (6, 10))"
  by (auto simp: getChunkRangeForReplacement_def Let_def)

theorem getChunkRangeForReplacement_window_witness:
  "2 * threshold ten_chunks \<le> int (length (chunks ten_chunks))
   \<and> length (chunks ten_chunks) = 10 \<and> threshold ten_chunks = 2
   \<and> getChunkRangeForReplacement ten_chunks 0 = (0, 4)
   \<and> getChunkRangeForReplacement ten_chunks 9 = (6, 10)
   \<and> getChunkRangeForReplacement ten_chunks 5 = (3, 7)
   \<and> snd (getChunkRangeForReplacement ten_chunks 5) - fst (getChunkRangeForReplacement ten_chunks 5)
       = min (2 * threshold ten_chunks) (int (length (chunks ten_chunks)))"
  using getChunkRangeForReplacement_window [of ten_chunks 5]
  by (simp add: ten_chunks_fields getChunkRangeForReplacement_def)

text \<open>
  C9. In replace mode the needs-update check is true exactly when the range of the
  previous pointer differs from the range of the next pointer; it is false for equal
  pointers. \<open>needUpdate\<close> yields a truth value only: it returns no instance, the one it
  reads is unchanged.
\<close>

theorem needUpdate_replace_iff:
  assumes "mode s = Replace"
  shows "needUpdate s p q = (getChunkRangeForReplacement s p \<noteq> getChunkRangeForReplacement s q)
         \<and> \<not> needUpdate s p p"
  using assms by (auto simp: needUpdate_def Let_def prod_eq_iff)

theorem needUpdate_replace_iff_witness:
  "mode ten_chunks = Replace
   \<and> needUpdate ten_chunks 0 3
   \<and> getChunkRangeForReplacement ten_chunks 0 = (0, 4)
   \<and> getChunkRangeForReplacement ten_chunks 3 = (1, 5)
   \<and> \<not> needUpdate ten_chunks 0 1
   \<and> getChunkRangeForReplacement ten_chunks 1 = (0, 4)
   \<and> \<not> needUpdate ten_chunks 3 3"
  using needUpdate_replace_iff [of ten_chunks 0 3] needUpdate_replace_iff [of ten_chunks 0 1]
    needUpdate_replace_iff [of ten_chunks 3 3]
  by (simp add: ten_chunks_fields getChunkRangeForReplacement_def)

lemma slice_in_range:
  "0 \<le> a \<Longrightarrow> a \<le> b \<Longrightarrow> b \<le> int (length xs) \<Longrightarrow>
   slice xs a b = take (nat (b - a)) (drop (nat a) xs) \<and> length (slice xs a b) = nat (b - a)"
  by (auto simp: slice_def Let_def min_def)

lemma getCurrentPointer_empty: "offsets s = [] \<Longrightarrow> getCurrentPointer s = - 1"
  by (simp add: getCurrentPointer_def getCurrentPointer_loop.simps)

text \<open>
  C10. For every integer pointer, every positive threshold and every number \<open>n\<close> of
  chunks, the range has \<open>0 \<le> start \<le> end \<le> n\<close>, so \<open>chunks.slice(start, end)\<close> is the
  \<open>end - start\<close> chunks from \<open>start\<close> on, all of them existing. This covers the pointer
  \<open>-1\<close>, which the pointer resolver returns when no offset is cached.
\<close>

theorem getChunkRangeForReplacement_in_bounds:
  assumes "0 < threshold s"
  shows "0 \<le> fst (getChunkRangeForReplacement s p)
       \<and> fst (getChunkRangeForReplacement s p) \<le> snd (getChunkRangeForReplacement s p)
       \<and> snd (getChunkRangeForReplacement s p) \<le> int (length (chunks s))
       \<and> length (slice (chunks s) (fst (getChunkRangeForReplacement s p))
                   (snd (getChunkRangeForReplacement s p)))
           = nat (snd (getChunkRangeForReplacement s p) - fst (getChunkRangeForReplacement s p))
       \<and> (offsets s = [] \<longrightarrow> getCurrentPointer s = - 1)"
proof -
  have b: "0 \<le> fst (getChunkRangeForReplacement s p)"
    "fst (getChunkRangeForReplacement s p) \<le> snd (getChunkRangeForReplacement s p)"
    "snd (getChunkRangeForReplacement s p) \<le> int (length (chunks s))"
    using assms by (auto simp: getChunkRangeForReplacement_def Let_def)
  from slice_in_range [OF b] getCurrentPointer_empty b show ?thesis
    by blast
qed

theorem getChunkRangeForReplacement_in_bounds_witness:
  "0 < threshold ten_chunks
   \<and> offsets ten_chunks = []
   \<and> getCurrentPointer ten_chunks = - 1
   \<and> getChunkRangeForReplacement ten_chunks (- 1) = (0, 4)
   \<and> length (slice (chunks ten_chunks) 0 4) = 4"
  using getChunkRangeForReplacement_in_bounds [of ten_chunks "- 1"]
  by (simp add: ten_chunks_fields getChunkRangeForReplacement_def)

section \<open>Properties of the pointer resolver\<close>

lemma getCurrentPointer_loop_props:
  assumes "i \<le> limit" and "limit = length (offsets s)"
    and "\<forall>k<i. \<not> getChunkOffsetTop s (int k) > getScrollTopForChunks s"
  shows "int i - 1 \<le> getCurrentPointer_loop s limit i
       \<and> getCurrentPointer_loop s limit i < int limit
       \<and> (\<forall>k. int k \<le> getCurrentPointer_loop s limit i
              \<longrightarrow> \<not> getChunkOffsetTop s (int k) > getScrollTopForChunks s)
       \<and> (getCurrentPointer_loop s limit i + 1 < int limit
              \<longrightarrow> getChunkOffsetTop s (getCurrentPointer_loop s limit i + 1)
                    > getScrollTopForChunks s)"
  using assms
proof (induction s limit i rule: getCurrentPointer_loop.induct)
  case (1 s limit i)
  show ?case
  proof (cases "i < limit")
    case False
    with "1.prems" have r: "getCurrentPointer_loop s limit i = int limit - 1" and "i = limit"
      by (simp_all add: getCurrentPointer_loop.simps)
    with "1.prems" show ?thesis by auto
  next
    case True
    show ?thesis
    proof (cases "getChunkOffsetTop s (int i) > getScrollTopForChunks s")
      case True
      with \<open>i < limit\<close> have r: "getCurrentPointer_loop s limit i = int i - 1"
        by (simp add: getCurrentPointer_loop.simps)
      with "1.prems" True \<open>i < limit\<close> show ?thesis by auto
    next
      case False
      with \<open>i < limit\<close> have r: "getCurrentPointer_loop s limit i
                                   = getCurrentPointer_loop s limit (i + 1)"
        by (subst getCurrentPointer_loop.simps) simp
      have "\<forall>k<i + 1. \<not> getChunkOffsetTop s (int k) > getScrollTopForChunks s"
        using "1.prems"(3) False by (auto simp: less_Suc_eq)
      with "1.IH" [OF \<open>i < limit\<close> False] \<open>i < limit\<close> "1.prems"(2)
      have "int (i + 1) - 1 \<le> getCurrentPointer_loop s limit (i + 1)
       \<and> getCurrentPointer_loop s limit (i + 1) < int limit
       \<and> (\<forall>k. int k \<le> getCurrentPointer_loop s limit (i + 1)
              \<longrightarrow> \<not> getChunkOffsetTop s (int k) > getScrollTopForChunks s)
       \<and> (getCurrentPointer_loop s limit (i + 1) + 1 < int limit
              \<longrightarrow> getChunkOffsetTop s (getCurrentPointer_loop s limit (i + 1) + 1)
                    > getScrollTopForChunks s)"
        by simp
      then show ?thesis unfolding r by auto
    qed
  qed
qed

lemma reflowed_fields:
  "offsets reflowed = [Some 0, Some 100, Some 200, Some 300, Some 250]"
  "getScrollTopForChunks reflowed = 260"
  "length (chunks reflowed) = 10"
  by (simp_all add: reflowed_def ten_chunks_fields getScrollTopForChunks_def getScrollTop_def
      getOffsetToScrollableEl_def detached_dom_def)

text \<open>
  C7 as stated fails. With the offsets 0, 100, 200, 300, 250 cached and the effective
  scroll position 260, the scan stops at index 3, the first offset above 260, and
  returns 2, although index 4 has the offset 250: the result is not the greatest index
  whose offset is at most the position. Scrolled to 1000, where no cached offset exceeds
  the position, the result is 4, the last cached index, not 9, the last chunk index.
\<close>

theorem getCurrentPointer_not_greatest:
  "getCurrentPointer reflowed = 2
   \<and> (2::int) < 4 \<and> 4 < int (length (offsets reflowed))
   \<and> getChunkOffsetTop reflowed 4 \<le> getScrollTopForChunks reflowed
   \<and> getCurrentPointer (reflowed\<lparr>env := (env reflowed)\<lparr>scrollTop := 1000\<rparr>\<rparr>) = 4
   \<and> int (length (chunks (reflowed\<lparr>env := (env reflowed)\<lparr>scrollTop := 1000\<rparr>\<rparr>))) - 1 = 9"
  by (simp add: getCurrentPointer_def getCurrentPointer_loop.simps getChunkOffsetTop_def
      array_get_def reflowed_def ten_chunks_fields getScrollTopForChunks_def getScrollTop_def
      getOffsetToScrollableEl_def detached_dom_def)

text \<open>
  C7 (as amended). For every scroll position and every state of the cache, the resolver
  returns an index \<open>r\<close> from \<open>-1\<close> to \<open>offsets.length - 1\<close> such that every offset up to
  index \<open>r\<close> is at most the effective scroll position and the offset at \<open>r + 1\<close>, if
  there is one, exceeds it. When no cached offset exceeds the position, \<open>r\<close> is the last
  cached index \<open>offsets.length - 1\<close>. When the cached offsets are non-decreasing in the
  index, \<open>r\<close> is the greatest cached index whose offset is at most the position, and
  \<open>-1\<close> if there is none. An offset that is absent or \<open>0\<close> reads as \<open>0\<close>.
\<close>

theorem getCurrentPointer_resolves:
  fixes s :: VirtualContent
  defines "r \<equiv> getCurrentPointer s"
    and "pos \<equiv> getScrollTopForChunks s"
    and "n \<equiv> length (offsets s)"
  shows "- 1 \<le> r \<and> r < int n
       \<and> (\<forall>i. int i \<le> r \<longrightarrow> getChunkOffsetTop s (int i) \<le> pos)
       \<and> (r + 1 < int n \<longrightarrow> pos < getChunkOffsetTop s (r + 1))
       \<and> ((\<forall>i<n. getChunkOffsetTop s (int i) \<le> pos) \<longrightarrow> r = int n - 1)
       \<and> (sorted (map (\<lambda>i. getChunkOffsetTop s (int i)) [0 ..< n])
            \<longrightarrow> (\<forall>i<n. (int i \<le> r) = (getChunkOffsetTop s (int i) \<le> pos)))"
proof -
  have props: "- 1 \<le> r" "r < int n"
    "\<And>k. int k \<le> r \<Longrightarrow> getChunkOffsetTop s (int k) \<le> pos"
    "r + 1 < int n \<Longrightarrow> pos < getChunkOffsetTop s (r + 1)"
    using getCurrentPointer_loop_props [of 0 n s]
    by (auto simp: r_def pos_def n_def getCurrentPointer_def not_less)
  have last: "r = int n - 1" if "\<forall>i<n. getChunkOffsetTop s (int i) \<le> pos"
  proof (rule ccontr)
    assume "r \<noteq> int n - 1"
    with props(1,2) have lt: "r + 1 < int n" and "0 \<le> r + 1" by simp_all
    then have "nat (r + 1) < n" by simp
    with that have "getChunkOffsetTop s (int (nat (r + 1))) \<le> pos" by blast
    with \<open>0 \<le> r + 1\<close> props(4) [OF lt] show False by simp
  qed
  have mono: "(int i \<le> r) = (getChunkOffsetTop s (int i) \<le> pos)"
    if srt: "sorted (map (\<lambda>i. getChunkOffsetTop s (int i)) [0 ..< n])" and "i < n" for i
  proof
    assume "int i \<le> r"
    then show "getChunkOffsetTop s (int i) \<le> pos" by (rule props(3))
  next
    assume le: "getChunkOffsetTop s (int i) \<le> pos"
    show "int i \<le> r"
    proof (rule ccontr)
      assume "\<not> int i \<le> r"
      with props(1) \<open>i < n\<close> have lt: "r + 1 < int n \<or> r + 1 = int i" and "0 \<le> r + 1"
        and j: "nat (r + 1) \<le> i"
        by auto
      from lt \<open>i < n\<close> have lt': "r + 1 < int n" by auto
      from sorted_nth_mono [OF srt j] \<open>i < n\<close>
      have "getChunkOffsetTop s (int (nat (r + 1))) \<le> getChunkOffsetTop s (int i)"
        using j by simp
      with \<open>0 \<le> r + 1\<close> le props(4) [OF lt'] show False by simp
    qed
  qed
  show ?thesis
    using props last mono by blast
qed


theorem getCurrentPointer_resolves_witness:
  "getCurrentPointer settled = 1
   \<and> sorted (map (\<lambda>i. getChunkOffsetTop settled (int i)) [0 ..< length (offsets settled)])
   \<and> getChunkOffsetTop settled (int 1) \<le> getScrollTopForChunks settled
   \<and> getScrollTopForChunks settled < getChunkOffsetTop settled (1 + 1)
   \<and> getCurrentPointer (settled\<lparr>env := (env settled)\<lparr>scrollTop := 1000\<rparr>\<rparr>) = 3"
  using getCurrentPointer_resolves [of settled]
    getCurrentPointer_resolves [of "settled\<lparr>env := (env settled)\<lparr>scrollTop := 1000\<rparr>\<rparr>"]
  by (simp add: getCurrentPointer_def getCurrentPointer_loop.simps getChunkOffsetTop_def
      array_get_def settled_def ten_chunks_fields getScrollTopForChunks_def getScrollTop_def
      getOffsetToScrollableEl_def detached_dom_def upt_rec)

section \<open>Properties of the geometry cache\<close>

lemma rendered_fields:
  "offsets rendered = [Some 0, Some 20, Some 40, Some 60]"
  "heights rendered = [Some 20, Some 20, Some 20, Some 20]"
  "leftPads rendered = [Some 0, Some 0, Some 0, Some 0]"
  "visibleIndexes rendered = [0, 1, 2, 3]"
  "mode rendered = Replace" "threshold rendered = 2"
  "chunks rendered = [js ''0'', js ''1'', js ''2'', js ''3'', js ''4'', js ''5'', js ''6'',
                      js ''7'', js ''8'', js ''9'']"
  by (simp_all add: rendered_def attached_def fresh_fields setText_def splitString_def
      substring_def upt_rec js_def scrollToTop_def detached_dom_def updateContent_def
      updateContentWithReplace_def getChunkRangeForReplacement_def slice_def
      storeChunkData_def calculateChunkData_def stacked_layout_def array_get_def array_set_def)

lemma rendered_again_fields:
  "offsets rendered_again = [Some 8, Some 20, Some 40, Some 60]"
  "heights rendered_again = [Some 20, Some 20, Some 20, Some 20]"
  "leftPads rendered_again = [Some 4, Some 4, Some 4, Some 4]"
  by (simp_all add: rendered_again_def rendered_fields updateContent_def
      updateContentWithReplace_def getChunkRangeForReplacement_def slice_def upt_rec
      storeChunkData_def calculateChunkData_def indented_layout_def array_get_def array_set_def)

text \<open>
  C6. The cache is claimed to keep the first measurement of every field of every index.
  \<open>storeChunkData\<close> writes a field when \<open>!this.offsets[chunkIndex]\<close> holds (likewise
  for the heights and the left indents), which is so for a slot never written and also
  for a slot that holds \<open>0\<close>. Chunk 0 measured with offset 0, left indent 0 and height
  20, then measured again with offset 8, left indent 4 and height 30: the offset and the
  left indent are overwritten, the height is kept. The same through the operations:
  after \<open>setText\<close> on an attached instance the first four chunks are cached with offsets
  0, 20, 40, 60 and left indents 0; rebuilt under the changed layout, the offset of
  chunk 0 becomes 8 and every left indent becomes 4.
\<close>

theorem storeChunkData_overwrites_zero:
  "offsets (storeChunkData fresh 0 measured_at_top) = [Some 0]
   \<and> leftPads (storeChunkData fresh 0 measured_at_top) = [Some 0]
   \<and> heights (storeChunkData fresh 0 measured_at_top) = [Some 20]
   \<and> offsets (storeChunkData (storeChunkData fresh 0 measured_at_top) 0 measured_after_reflow)
       = [Some 8]
   \<and> leftPads (storeChunkData (storeChunkData fresh 0 measured_at_top) 0 measured_after_reflow)
       = [Some 4]
   \<and> heights (storeChunkData (storeChunkData fresh 0 measured_at_top) 0 measured_after_reflow)
       = [Some 20]
   \<and> offsets rendered = [Some 0, Some 20, Some 40, Some 60]
   \<and> leftPads rendered = [Some 0, Some 0, Some 0, Some 0]
   \<and> offsets rendered_again = [Some 8, Some 20, Some 40, Some 60]
   \<and> leftPads rendered_again = [Some 4, Some 4, Some 4, Some 4]
   \<and> heights rendered_again = heights rendered"
  by (simp add: storeChunkData_def measured_at_top_def measured_after_reflow_def fresh_fields
      array_get_def array_set_def rendered_fields rendered_again_fields)

text \<open>A stored value other than \<open>0\<close> is kept, in each of the three arrays.\<close>

lemma array_get_set_same: "0 \<le> i \<Longrightarrow> array_get (array_set xs i v) i = Some v"
  by (auto simp: array_get_def array_set_def nth_append)

lemma storeChunkData_keeps_nonzero:
  "\<not> falsy (array_get (offsets s) i)
     \<Longrightarrow> offsets (storeChunkData s i m) = offsets s"
  "\<not> falsy (array_get (heights s) i)
     \<Longrightarrow> heights (storeChunkData s i m) = heights s"
  "\<not> falsy (array_get (leftPads s) i)
     \<Longrightarrow> leftPads (storeChunkData s i m) = leftPads s"
  by (simp_all add: storeChunkData_def Let_def split: option.splits)

lemma storeChunkData_write_once_nonzero:
  assumes "0 \<le> i" and "offsetTop m = Some v" and "v \<noteq> 0"
  shows "array_get (offsets (storeChunkData (storeChunkData s i m) i m')) i
         = array_get (offsets (storeChunkData s i m)) i"
proof -
  have "\<not> falsy (array_get (offsets (storeChunkData s i m)) i)"
    using assms
    by (cases "falsy (array_get (offsets s) i)")
       (auto simp: storeChunkData_def Let_def array_get_set_same split: option.splits)
  then show ?thesis
    by (simp add: storeChunkData_keeps_nonzero)
qed

section \<open>Properties of setting content\<close>

lemma chunks_storeChunkData: "chunks (storeChunkData s i m) = chunks s"
  by (simp add: storeChunkData_def Let_def split: option.splits)

lemma chunks_fold:
  "(\<And>x st. chunks (f x st) = chunks st) \<Longrightarrow> chunks (fold f xs s) = chunks s"
  by (induction xs arbitrary: s) simp_all

lemma chunks_updateContent: "chunks (updateContent s) = chunks s"
proof -
  have "chunks (updateContentWithAppend s a b) = chunks s" for a b
    unfolding updateContentWithAppend_def Let_def
    by (rule trans [OF chunks_fold]) simp_all
  moreover have "chunks (updateContentWithReplace s a b) = chunks s" for a b
    unfolding updateContentWithReplace_def Let_def split_def
    by (rule trans [OF chunks_fold]) (simp_all add: chunks_storeChunkData)
  ultimately show ?thesis
    by (simp add: updateContent_def)
qed

lemma splitString_empty: "0 < n \<Longrightarrow> splitString [] n = Inr []"
  by (simp add: splitString_def)

text \<open>
  C5 as stated fails: \<open>Math.ceil(0 / chunkLength)\<close> is \<open>0\<close>, so splitting the empty
  string gives no chunk, not one empty chunk, and \<open>setText('')\<close> leaves the instance
  with an empty chunk sequence.
\<close>

theorem empty_content_not_one_chunk:
  "splitString [] 5 = Inr []
   \<and> splitString [] 5 \<noteq> Inr [[]]
   \<and> chunks (snd (setText fresh (JString []))) = []
   \<and> chunks (snd (setText fresh (JString []))) \<noteq> [[]]"
  by (simp add: splitString_def setText_def fresh_fields scrollToTop_def detached_dom_def)

text \<open>
  C5 (as amended). Splitting empty content yields zero chunks: for every positive chunk
  length \<open>splitString('', n)\<close> is the empty sequence, and \<open>setText('')\<close> on an instance
  with that chunk length returns normally and leaves an empty chunk sequence.
\<close>

theorem empty_content_no_chunk:
  assumes "0 < n"
  shows "splitString [] n = Inr []
       \<and> (chunkLength s = n \<longrightarrow>
            fst (setText s (JString [])) = Inr () \<and> chunks (snd (setText s (JString []))) = [])"
  using assms
  by (simp add: splitString_empty setText_def scrollToTop_def chunks_updateContent Let_def)

theorem empty_content_no_chunk_witness:
  "(0::nat) < 1 \<and> chunkLength attached = 1
   \<and> splitString [] 1 = Inr []
   \<and> fst (setText attached (JString [])) = Inr ()
   \<and> chunks (snd (setText attached (JString []))) = []
   \<and> visibleIndexes (snd (setText attached (JString []))) = []"
  using empty_content_no_chunk [of 1 attached]
  by (simp add: attached_def fresh_fields setText_def splitString_def scrollToTop_def
      detached_dom_def updateContent_def updateContentWithReplace_def
      getChunkRangeForReplacement_def slice_def)

lemma validateString_TypeError_iff:
  "validateString v = Inl TypeError
   \<longleftrightarrow> (\<forall>str. v \<noteq> JString str) \<and> (\<forall>n. v \<noteq> JNumber n) \<and> ToBoolean v"
  by (cases v) auto

lemma validateString_no_RangeError: "validateString v \<noteq> Inl RangeError"
  by (cases v) auto

lemma splitString_no_TypeError: "splitString str n \<noteq> Inl TypeError"
  by (simp add: splitString_def)

lemma splitHtml_no_TypeError: "splitHtml str n \<noteq> Inl TypeError"
  by (simp add: splitHtml_def splitString_def)

lemma setText_TypeError_iff:
  "fst (setText s v) = Inl TypeError \<longleftrightarrow> validateString v = Inl TypeError"
proof (cases "v = JUndefined")
  case True
  then show ?thesis
    by (simp add: setText_def Let_def splitString_def)
next
  case False
  then show ?thesis
    using splitString_no_TypeError
    by (auto simp: setText_def Let_def split: sum.splits)
qed

lemma setHtml_TypeError_iff:
  "fst (setHtml s v) = Inl TypeError \<longleftrightarrow> validateString v = Inl TypeError"
  using splitHtml_no_TypeError
  by (auto simp: setHtml_def Let_def split: sum.splits)

lemma TypeError_leaves_instance:
  assumes "validateString v = Inl TypeError"
  shows "snd (setText s v) = s" and "snd (setHtml s v) = s"
proof -
  from assms have "v \<noteq> JUndefined" by auto
  with assms show "snd (setText s v) = s" by (simp add: setText_def)
  from assms show "snd (setHtml s v) = s" by (simp add: setHtml_def)
qed

text \<open>
  C8 as stated fails: the validation rejects a number only if it is NaN (which then
  counts as falsy), so \<open>Infinity\<close>, neither a string nor a finite number, is accepted
  and converted to the text \<open>Infinity\<close>.
\<close>

theorem validateString_accepts_infinity:
  "validateString (JNumber PosInfinity) = Inr (js ''Infinity'')
   \<and> fst (setText fresh (JNumber PosInfinity)) = Inr ()
   \<and> fst (setHtml fresh (JNumber PosInfinity)) = Inr ()"
  by (simp add: setText_def setHtml_def splitHtml_def splitString_def fresh_fields Let_def)

text \<open>
  C8 (as amended). \<open>validateString\<close>, and with it \<open>setText\<close> and \<open>setHtml\<close>, throws a
  TypeError exactly when the argument is not a string, not a number, and truthy. A string
  is taken as it is; every number other than NaN is converted to its text, a finite one
  to its decimal text and the infinities to \<open>Infinity\<close> and \<open>-Infinity\<close>; NaN, null,
  undefined and every other falsy value that is not a string become the empty string.
  When the TypeError is thrown the instance is left as it was: the chunk sequence, the
  geometry cache, the pointer and the visible indexes are unchanged.
\<close>

theorem validateString_throws_iff:
  "(validateString v = Inl TypeError
      \<longleftrightarrow> (\<forall>str. v \<noteq> JString str) \<and> (\<forall>n. v \<noteq> JNumber n) \<and> ToBoolean v)
   \<and> (fst (setText s v) = Inl TypeError \<longleftrightarrow> validateString v = Inl TypeError)
   \<and> (fst (setHtml s v) = Inl TypeError \<longleftrightarrow> validateString v = Inl TypeError)
   \<and> validateString (JString str) = Inr str
   \<and> validateString (JNumber (Finite t)) = Inr t
   \<and> validateString (JNumber PosInfinity) = Inr (js ''Infinity'')
   \<and> validateString (JNumber NegInfinity) = Inr (js ''-Infinity'')
   \<and> ((\<forall>str. v \<noteq> JString str) \<and> \<not> ToBoolean v \<and> (\<forall>n. v = JNumber n \<longrightarrow> isNaN n)
        \<longrightarrow> validateString v = Inr [])
   \<and> (validateString v = Inl TypeError \<longrightarrow> snd (setText s v) = s \<and> snd (setHtml s v) = s)"
proof -
  have falsy: "validateString v = Inr []"
    if "\<forall>str. v \<noteq> JString str" "\<not> ToBoolean v" "\<forall>n. v = JNumber n \<longrightarrow> isNaN n"
    using that by (cases v) auto
  show ?thesis
    using validateString_TypeError_iff [of v] setText_TypeError_iff [of s v]
      setHtml_TypeError_iff [of s v] TypeError_leaves_instance [of v s] falsy
    by simp
qed

theorem validateString_throws_iff_witness:
  "validateString JObject = Inl TypeError
   \<and> ToBoolean JObject
   \<and> fst (setText ten_chunks JObject) = Inl TypeError
   \<and> snd (setText ten_chunks JObject) = ten_chunks
   \<and> fst (setHtml ten_chunks JObject) = Inl TypeError
   \<and> snd (setHtml ten_chunks JObject) = ten_chunks
   \<and> \<not> ToBoolean JNull \<and> validateString JNull = Inr []
   \<and> \<not> ToBoolean (JNumber NaN) \<and> validateString (JNumber NaN) = Inr []"
  using validateString_throws_iff [of JObject ten_chunks] validateString_throws_iff [of JNull]
    validateString_throws_iff [of "JNumber NaN"]
  by simp

end
